theory Spec2Isabelle
  imports Main "HOL-Library.Word" "HOL-Library.Signed_Division"
begin

section \<open>Go values shared by the embedded functions\<close>

text \<open>
  Go's \<open>int64\<close> is a 64-bit word: \<open>+\<close> wraps, \<open>sint\<close> reads the two's complement
  value. Go's \<open>int\<close> is 32 or 64 bits wide, by platform; the embedded functions
  compare it, count with it and convert it with \<open>int64(...)\<close>, so it is carried as
  an \<open>int64\<close> as well (every \<open>int\<close> is one).
\<close>

type_synonym int64 = "64 word"

text \<open>
  A value of Go's \<open>error\<close> interface, by the dynamic types and sentinel variables the
  embedded code distinguishes; \<open>nil\<close> is \<open>None\<close> of \<open>error option\<close>.
  \<open>ApiError c\<close> is an \<open>*apierror.ApiError\<close> whose \<open>ErrCode()\<close> is \<open>c\<close>,
  \<open>PathError\<close> an \<open>*os.PathError\<close>; \<open>ErrInitNotDirectory dir\<close> and
  \<open>ErrInit err\<close> are the two \<open>fmt.Errorf\<close> values of \<open>download\<close> (their text
  starts with the non-ASCII constant \<open>StrDownloadInitError\<close>); \<open>ErrorString\<close> is any
  other value (\<open>errors.New\<close>, \<open>fmt.Errorf\<close>).
\<close>

datatype error =
    ApiError int
  | PathError string
  | ErrNoWokers
  | ErrUnknownRangeGenMode
  | ErrDownloadNotSupportChecksum
  | ErrDownloadFileBanned
  | ErrDownloadChecksumFailed
  | ContextCanceled
  | ErrInitNotDirectory string
  | ErrInit error
  | ErrorString string

text \<open>A panic of the Go runtime (nil dereference, division by zero) or a normal return.\<close>

datatype 'a go = Panic | Ret 'a

text \<open>\<open>cloudpan.AppFileEntity\<close>, by the fields the embedded code reads.\<close>

record AppFileEntity =
  FileId :: string
  FileSize :: int64
  IsFolder :: bool
  Path :: string

section \<open>Choosing the block size and the range plan (package downloader)\<close>

text \<open>
  Go's \<open>/\<close> on \<open>int64\<close> truncates towards zero and wraps on overflow
  (\<open>MinInt64 / -1\<close>); a zero divisor panics, which the callers below check before
  they divide.
\<close>

definition go_div :: "int64 \<Rightarrow> int64 \<Rightarrow> int64" where
  "go_div a b = word_of_int (sint a sdiv sint b)"

record Range =
  Begin :: int64
  End :: int64

datatype RangeGenMode = RangeGenMode_Default | RangeGenMode_BlockSize | RangeGenMode_Other int

text \<open>
  Modelled from the spec: the type \<open>RangeListGen\<close> of package transfer and its two
  constructors, which are not under src/. Spec 2: the generator partitions "either by
  fixed block size or by even division across a parallelism factor". A generator is
  kept as the arguments its constructor received: \<open>NewRangeListGenDefault(totalSize,
  begin, count, parallel)\<close> and \<open>NewRangeListGenBlockSize(totalSize, begin, blockSize)\<close>.
\<close>

datatype RangeListGen =
    RangeListGenDefault int64 int64 int64 int64
  | RangeListGenBlockSize int64 int64 int64

text \<open>
  Modelled from the spec: \<open>NewRangeListGenDefault\<close> (package transfer, not under
  src/), the constructor of a generator that divides "evenly across parallelism
  workers" (spec 4.1). It keeps its arguments.
\<close>

definition NewRangeListGenDefault :: "int64 \<Rightarrow> int64 \<Rightarrow> int64 \<Rightarrow> int64 \<Rightarrow> RangeListGen" where
  "NewRangeListGenDefault totalSize begin count parallel =
     RangeListGenDefault totalSize begin count parallel"

text \<open>
  Modelled from the spec: \<open>NewRangeListGenBlockSize\<close> (package transfer, not under
  src/), the constructor of a generator of "fixed chunk size" (spec 4.1). It keeps its
  arguments.
\<close>

definition NewRangeListGenBlockSize :: "int64 \<Rightarrow> int64 \<Rightarrow> int64 \<Rightarrow> RangeListGen" where
  "NewRangeListGenBlockSize totalSize begin blockSize =
     RangeListGenBlockSize totalSize begin blockSize"

text \<open>
  What the spec does not say about the generator is a parameter: \<open>LoadBlockSize\<close> of
  a generator, and \<open>GenRange\<close> of a Default-mode generator.
\<close>

record TransferPkg =
  LoadBlockSize :: "RangeListGen \<Rightarrow> int64"
  GenRangeDefault :: "RangeListGen \<Rightarrow> RangeListGen \<times> Range option"

text \<open>
  Modelled from the spec: \<open>GenRange\<close> of a BlockSize-mode generator (package transfer,
  not under src/). Spec 4.1: "fixed chunk size [...]; the final range is clipped to
  totalSize"; spec 3: the ranges are half-open, never overlap and, in order, cover
  \<open>[0, totalSize)\<close>. So the next range starts where the last one ended, is one block
  long unless the file ends before, and there is none (\<open>nil\<close>) once the file is
  covered. The generator is returned with its cursor advanced.
\<close>

definition GenRange :: "TransferPkg \<Rightarrow> RangeListGen \<Rightarrow> RangeListGen \<times> Range option" where
  "GenRange tp gen =
     (case gen of
        RangeListGenBlockSize totalSize begin blockSize \<Rightarrow>
          (if totalSize \<le>s begin then (gen, None)
           else
             (let e = (if totalSize \<le>s begin + blockSize then totalSize
                       else begin + blockSize)
              in (RangeListGenBlockSize totalSize e blockSize,
                  Some \<lparr>Begin = begin, End = e\<rparr>)))
      | RangeListGenDefault totalSize begin count parallel \<Rightarrow> GenRangeDefault tp gen)"

text \<open>\<open>downloader.Config\<close> and \<open>transfer.DownloadStatus\<close>, by the fields read here.\<close>

record Config =
  Mode :: RangeGenMode
  MaxParallel :: int64
  CacheSize :: int64
  BlockSize :: int64
  MaxRate :: int64
  TryHTTP :: bool

record DownloadStatus =
  TotalSize :: int64
  RangeListGen :: "RangeListGen option"

text \<open>
  \<open>SelectParallel\<close>. \<open>MinParallelSize\<close> is declared in a file not under src/ and
  is a parameter; were it 0, the division would panic. \<open>isRange\<close> is
  \<open>instanceRangeList \<noteq> nil \<and> len > 0\<close>. The parameter \<open>maxParallel\<close> is not
  read: the method takes \<open>der.config.MaxParallel\<close>.
\<close>

definition SelectParallel ::
  "int64 \<Rightarrow> Config \<Rightarrow> bool \<Rightarrow> int64 \<Rightarrow> int64 \<Rightarrow> Range list \<Rightarrow> int64 go" where
  "SelectParallel MinParallelSize cfg single maxParallel totalSize instanceRangeList =
     (if \<not> single \<and> instanceRangeList = [] \<and> MinParallelSize = 0 then Panic
      else
        (let parallel =
           (if single then 1
            else if instanceRangeList \<noteq> [] then word_of_nat (length instanceRangeList)
            else
              (if go_div totalSize MinParallelSize <s MaxParallel cfg
               then go_div totalSize MinParallelSize + 1
               else MaxParallel cfg))
         in Ret (if parallel <s 1 then 1 else parallel)))"

text \<open>
  \<open>SelectBlockSizeAndInitRangeGen\<close>: returns \<open>(blockSize, initErr)\<close> and the status
  with its generator set. In BlockSize mode the division by \<open>int64(parallel)\<close> panics
  when \<open>parallel\<close> is 0. The unknown-mode branch returns before
  \<open>status.SetRangeListGen\<close>.
\<close>

definition SelectBlockSizeAndInitRangeGen ::
  "TransferPkg \<Rightarrow> Config \<Rightarrow> bool \<Rightarrow> DownloadStatus \<Rightarrow> int64
     \<Rightarrow> (int64 \<times> error option \<times> DownloadStatus) go" where
  "SelectBlockSizeAndInitRangeGen tp cfg single status parallel =
     (if single then Ret (- 1, None, status)
      else
        (case RangeListGen status of
           None \<Rightarrow>
             (case Mode cfg of
                RangeGenMode_Default \<Rightarrow>
                  (let gen = NewRangeListGenDefault (TotalSize status) 0 0 parallel
                   in Ret (LoadBlockSize tp gen, None, status\<lparr>RangeListGen := Some gen\<rparr>))
              | RangeGenMode_BlockSize \<Rightarrow>
                  (if parallel = 0 then Panic
                   else
                     (let b2 = go_div (TotalSize status) parallel + 1;
                          blockSize = (if BlockSize cfg <s b2 then BlockSize cfg else b2);
                          gen = NewRangeListGenBlockSize (TotalSize status) 0 blockSize
                      in Ret (blockSize, None, status\<lparr>RangeListGen := Some gen\<rparr>)))
              | RangeGenMode_Other m \<Rightarrow> Ret (0, Some ErrUnknownRangeGenMode, status))
         | Some gen \<Rightarrow> Ret (LoadBlockSize tp gen, None, status\<lparr>RangeListGen := Some gen\<rparr>)))"

text \<open>\<open>SelectCacheSize\<close>.\<close>

definition SelectCacheSize :: "int64 \<Rightarrow> int64 \<Rightarrow> int64" where
  "SelectCacheSize confCacheSize blockSize =
     (if 0 <s blockSize \<and> blockSize <s confCacheSize then blockSize else confCacheSize)"

text \<open>
  The loop of \<open>Execute\<close> that fills a fresh plan: at most \<open>cap(bii.Ranges)\<close> calls of
  \<open>GenRange\<close>, stopping at the first \<open>nil\<close>.
\<close>

primrec genRanges :: "TransferPkg \<Rightarrow> nat \<Rightarrow> RangeListGen \<Rightarrow> Range list \<times> RangeListGen" where
  "genRanges tp 0 gen = ([], gen)"
| "genRanges tp (Suc n) gen =
     (case GenRange tp gen of
        (gen', None) \<Rightarrow> ([], gen')
      | (gen', Some r) \<Rightarrow> (case genRanges tp n gen' of (rs, gen'') \<Rightarrow> (r # rs, gen'')))"

text \<open>
  The plan of \<open>Execute\<close> (the block under "isRange"): resumed ranges are kept; a
  fresh plan is one range in single mode and at most \<open>parallel\<close> generated ranges
  otherwise. \<open>make\<close> with a negative capacity panics, and a status without generator
  would be a nil dereference.
\<close>

definition initRanges ::
  "TransferPkg \<Rightarrow> bool \<Rightarrow> int64 \<Rightarrow> DownloadStatus \<Rightarrow> int64 \<Rightarrow> Range list
     \<Rightarrow> (Range list \<times> DownloadStatus) go" where
  "initRanges tp single fileSize status parallel ranges =
     (if ranges \<noteq> [] then Ret (ranges, status)
      else if parallel <s 0 then Panic
      else if single then Ret ([\<lparr>Begin = 0, End = fileSize\<rparr>], status)
      else
        (case RangeListGen status of
           None \<Rightarrow> Panic
         | Some gen \<Rightarrow>
             (case genRanges tp (nat (sint parallel)) gen of
                (rs, gen') \<Rightarrow> Ret (rs, status\<lparr>RangeListGen := Some gen'\<rparr>))))"

text \<open>
  The two steps as \<open>Execute\<close> chains them for a fresh multi-threaded download
  (\<open>single = false\<close>, no resumed ranges): block size and generator, then the plan.
\<close>

definition freshPlan :: "TransferPkg \<Rightarrow> Config \<Rightarrow> int64 \<Rightarrow> int64 \<Rightarrow> (error + Range list) go" where
  "freshPlan tp cfg fileSize parallel =
     (case SelectBlockSizeAndInitRangeGen tp cfg False
             \<lparr>TotalSize = fileSize, RangeListGen = None\<rparr> parallel of
        Panic \<Rightarrow> Panic
      | Ret (blockSize, Some err, status) \<Rightarrow> Ret (Inl err)
      | Ret (blockSize, None, status) \<Rightarrow>
          (case initRanges tp False fileSize status parallel [] of
             Panic \<Rightarrow> Panic
           | Ret (rs, status') \<Rightarrow> Ret (Inr rs)))"

section \<open>Mirror probing and worker assignment (package downloader)\<close>

text \<open>
  \<open>net/url\<close> and \<open>net/http\<close> belong to Go's library. The URL of a request that
  was sent is absolute: it is kept as its scheme and the text after the colon
  (\<open>//host/path?query\<close>), and on such a URL \<open>String()\<close> joins the two again, also
  after \<open>Scheme\<close> was assigned. For a URL without scheme or host, what
  \<open>String()\<close> inserts between them is outside this model.
\<close>

record net_url =
  Scheme :: string
  Rest :: string

definition URL_String :: "net_url \<Rightarrow> string" where
  "URL_String u = (if Scheme u = [] then Rest u else Scheme u @ '':'' @ Rest u)"

record http_Request =
  ReqURL :: net_url

record http_Response =
  StatusCode :: int
  Request :: "http_Request option"

record LoadBalancerResponse =
  URL :: string

text \<open>
  \<open>Downloader\<close>, by the fields the embedded methods read. \<open>durlCheckFunc\<close> answers
  a probe with \<open>(contentLength, resp, err)\<close>.
\<close>

record Downloader =
  config :: Config
  der_fileInfo :: AppFileEntity
  familyId :: int64
  loadBalansers :: "string list"
  durlCheckFunc :: "string \<Rightarrow> int64 \<times> http_Response option \<times> error option"

text \<open>The closure \<open>handleLoadBalancer\<close> of \<open>checkLoadBalancers\<close>.\<close>

definition handleLoadBalancer ::
  "Config \<Rightarrow> http_Request option \<Rightarrow> LoadBalancerResponse list \<Rightarrow> LoadBalancerResponse list" where
  "handleLoadBalancer cfg req lbs =
     (case req of
        None \<Rightarrow> lbs
      | Some r \<Rightarrow>
          (let u = (if TryHTTP cfg then (ReqURL r)\<lparr>Scheme := ''http''\<rparr> else ReqURL r)
           in lbs @ [\<lparr>URL = URL_String u\<rparr>]))"

text \<open>
  The body of the goroutine started for one mirror. \<open>subResp.StatusCode\<close> with a nil
  response and a nil error is a nil dereference. The status class is Go's truncating
  \<open>StatusCode / 100\<close>; classes other than 4 and 5 fall through the switch.
\<close>

definition probeLoadBalanser ::
  "Downloader \<Rightarrow> string \<Rightarrow> LoadBalancerResponse list \<Rightarrow> LoadBalancerResponse list go" where
  "probeLoadBalanser der loadBalanser lbs =
     (case durlCheckFunc der loadBalanser of
        (subContentLength, subResp, subErr) \<Rightarrow>
          (if subErr \<noteq> None then Ret lbs
           else
             (case subResp of
                None \<Rightarrow> Panic
              | Some resp \<Rightarrow>
                  (if StatusCode resp sdiv 100 = 4 \<or> StatusCode resp sdiv 100 = 5
                   then Ret lbs
                   else if FileSize (der_fileInfo der) \<noteq> subContentLength
                   then Ret lbs
                   else Ret (handleLoadBalancer (config der) (Request resp) lbs)))))"

text \<open>
  The goroutines append to one slice \<open>lbs\<close> (\<open>loadBalancerResponses\<close> in the
  source), each append taken as one step; \<open>finished\<close> is the order in which they come to
  their end (the mirrors of \<open>der.loadBalansers\<close>, in the order of one schedule).
\<close>

fun probeAll ::
  "Downloader \<Rightarrow> string list \<Rightarrow> LoadBalancerResponse list \<Rightarrow> LoadBalancerResponse list go" where
  "probeAll der [] lbs = Ret lbs"
| "probeAll der (m # ms) lbs =
     (case probeLoadBalanser der m lbs of
        Panic \<Rightarrow> Panic
      | Ret lbs' \<Rightarrow> probeAll der ms lbs')"

text \<open>
  Modelled from the spec: the type \<open>LoadBalancerResponseList\<close> (package downloader,
  in a file not under src/). Spec 4.5: the accepted candidates are "an ordered list"
  that is "round-robin-consumable" (spec 2): the entries and a cursor.
\<close>

record LoadBalancerResponseList =
  lbr :: "LoadBalancerResponse list"
  cursor :: nat

text \<open>
  Modelled from the spec: \<open>NewLoadBalancerResponseList\<close> (not under src/). The
  list holds the entries in the order given ("an ordered list including the primary
  first", spec 4.5), with the cursor on the first.
\<close>

definition NewLoadBalancerResponseList :: "LoadBalancerResponse list \<Rightarrow> LoadBalancerResponseList" where
  "NewLoadBalancerResponseList lbs = \<lparr>lbr = lbs, cursor = 0\<rparr>"

text \<open>
  Modelled from the spec: \<open>SequentialGet\<close> (not under src/). Spec 4.5: "Workers
  consume from this list round-robin". It returns the entry under the cursor and moves
  the cursor on, wrapping at the end; an empty list gives \<open>nil\<close>.
\<close>

definition SequentialGet ::
  "LoadBalancerResponseList \<Rightarrow> LoadBalancerResponse option \<times> LoadBalancerResponseList" where
  "SequentialGet l =
     (if lbr l = [] then (None, l)
      else (Some (lbr l ! (cursor l mod length (lbr l))), l\<lparr>cursor := Suc (cursor l)\<rparr>))"

text \<open>
  \<open>checkLoadBalancers\<close>. \<open>loadBalancerResponses\<close> is the slice of that name when
  \<open>wg.Wait()\<close> returns: the first entry is appended before any probe starts, and its
  \<open>URL\<close> is the string literal of the source. The method returns the slice wrapped
  by \<open>NewLoadBalancerResponseList\<close>.
\<close>

definition loadBalancerResponses :: "Downloader \<Rightarrow> string list \<Rightarrow> LoadBalancerResponse list go" where
  "loadBalancerResponses der finished = probeAll der finished [\<lparr>URL = ''der.durl''\<rparr>]"

definition checkLoadBalancers :: "Downloader \<Rightarrow> string list \<Rightarrow> LoadBalancerResponseList go" where
  "checkLoadBalancers der finished =
     (case loadBalancerResponses der finished of
        Panic \<Rightarrow> Panic
      | Ret lbs \<Rightarrow> Ret (NewLoadBalancerResponseList lbs))"

text \<open>
  The remote API (\<open>cloudpan.PanClient\<close>, another module). Its answers are a
  parameter; the first argument is the index \<open>k\<close> of the range the call is made for,
  so that answers may differ from call to call.
\<close>

record PanClient =
  AppGetFileDownloadUrl :: "nat \<Rightarrow> string \<Rightarrow> string \<times> error option"
  AppFamilyGetFileDownloadUrl :: "nat \<Rightarrow> int64 \<Rightarrow> string \<Rightarrow> string \<times> error option"

text \<open>A worker as \<open>Execute\<close> builds it: \<open>NewWorker\<close> and the setters it calls.\<close>

record Worker =
  workerID :: nat
  workerFamilyId :: int64
  workerFileId :: string
  workerURL :: string
  workerTotalSize :: int64
  acceptRanges :: string
  wrange :: Range

text \<open>
  The loop of \<open>Execute\<close> over \<open>bii.Ranges\<close>: one \<open>SequentialGet\<close> per range; a nil
  candidate or a failed URL lookup skips the range; the worker gets the URL the API
  resolved (\<open>getDownloadUrl\<close> is the if/else on \<open>der.familyId\<close> inside the loop).
  \<open>ws\<close> is the monitor's worker list.
\<close>

definition getDownloadUrl :: "Downloader \<Rightarrow> PanClient \<Rightarrow> nat \<Rightarrow> string \<times> error option" where
  "getDownloadUrl der pc k =
     (if 0 <s familyId der
      then AppFamilyGetFileDownloadUrl pc k (familyId der) (FileId (der_fileInfo der))
      else AppGetFileDownloadUrl pc k (FileId (der_fileInfo der)))"

fun assignWorkers ::
  "Downloader \<Rightarrow> PanClient \<Rightarrow> nat \<Rightarrow> Range list \<Rightarrow> LoadBalancerResponseList \<Rightarrow> Worker list
     \<Rightarrow> Worker list \<times> LoadBalancerResponseList" where
  "assignWorkers der pc k [] l ws = (ws, l)"
| "assignWorkers der pc k (r # rs) l ws =
     (case SequentialGet l of
        (None, l') \<Rightarrow> assignWorkers der pc (Suc k) rs l' ws
      | (Some loadBalancer, l') \<Rightarrow>
          (case getDownloadUrl der pc k of
             (durl, Some apierr) \<Rightarrow> assignWorkers der pc (Suc k) rs l' ws
           | (durl, None) \<Rightarrow>
               assignWorkers der pc (Suc k) rs l'
                 (ws @ [\<lparr>workerID = k, workerFamilyId = familyId der,
                          workerFileId = FileId (der_fileInfo der), workerURL = durl,
                          workerTotalSize = FileSize (der_fileInfo der),
                          acceptRanges = ''bytes'', wrange = r\<rparr>])))"

section \<open>Execute (package downloader)\<close>

text \<open>
  The files a download touches: the destination at \<open>SavePath\<close> (absent, or present
  with a size), the InstanceState file at \<open>SavePath + DownloadSuffix\<close>, and the
  number of \<open>os.Remove(SavePath)\<close> calls made so far.
\<close>

record World =
  destFile :: "int64 option"
  instanceStateFile :: bool
  removeCalls :: nat

record DownloadInstanceInfo =
  bii_DownloadStatus :: "DownloadStatus option"
  bii_Ranges :: "Range list"

text \<open>
  What the collaborators of \<open>Execute\<close> that are not under src/ answer in one run: the
  order in which the probes finish, whether \<open>initInstanceState\<close> fails, the resume
  information \<open>instanceState.Get()\<close> (nil or a record), the error of the monitor
  (\<open>der.monitor.Err()\<close> once \<open>der.monitor.Execute\<close> has returned) for the workers it
  was given, and the size of the destination at that moment (after \<open>PreAlloc\<close> and
  the workers' writes).
\<close>

record ExecuteEnv =
  finishOrder :: "string list"
  initInstanceStateErr :: "error option"
  instanceState_Get :: "DownloadInstanceInfo option"
  monitorErr :: "Worker list \<Rightarrow> error option"
  sizeAfterRun :: "Worker list \<Rightarrow> int64"

text \<open>
  Modelled from the spec: \<open>initInstanceState\<close>, a method of \<open>Downloader\<close> in a file
  not under src/. Spec 3: the InstanceState is "Created at transfer start if absent".
  Whether the creation fails is the environment's answer.
\<close>

definition initInstanceState :: "error option \<Rightarrow> World \<Rightarrow> error option \<times> World" where
  "initInstanceState answer w =
     (case answer of
        Some err \<Rightarrow> (Some err, w)
      | None \<Rightarrow> (None, w\<lparr>instanceStateFile := True\<rparr>))"

text \<open>
  Modelled from the spec: \<open>removeInstanceState\<close>, a method of \<open>Downloader\<close> in a
  file not under src/. Spec 3: the InstanceState is "deleted exactly once, when the
  transfer completes successfully or is a zero-byte success"; spec 6: "deleted on
  success".
\<close>

definition removeInstanceState :: "World \<Rightarrow> World" where
  "removeInstanceState w = w\<lparr>instanceStateFile := False\<rparr>"

text \<open>
  \<open>Execute\<close> up to the call of the monitor: probes, InstanceState, status, parallel,
  block size, plan, workers. It returns the world and either the error of an early
  \<open>return err\<close> or the workers appended to the monitor. Rate limit, cache pool,
  events and the HTTP clients have no part in what is returned.
\<close>

definition Execute_prepare ::
  "TransferPkg \<Rightarrow> int64 \<Rightarrow> Downloader \<Rightarrow> PanClient \<Rightarrow> ExecuteEnv \<Rightarrow> World
     \<Rightarrow> (World \<times> (error + Worker list)) go" where
  "Execute_prepare tp MinParallelSize der pc env w =
     (case checkLoadBalancers der (finishOrder env) of
        Panic \<Rightarrow> Panic
      | Ret loadBalancerResponseList \<Rightarrow>
          (case initInstanceState (initInstanceStateErr env) w of
             (Some err, w1) \<Rightarrow> Ret (w1, Inl err)
           | (None, w1) \<Rightarrow>
               (let bii = (case instanceState_Get env of
                             None \<Rightarrow> \<lparr>bii_DownloadStatus = None, bii_Ranges = []\<rparr>
                           | Some b \<Rightarrow> b);
                    status = (case bii_DownloadStatus bii of
                                Some st \<Rightarrow> st
                              | None \<Rightarrow> \<lparr>TotalSize = FileSize (der_fileInfo der),
                                         RangeListGen = None\<rparr>);
                    single = False
                in case SelectParallel MinParallelSize (config der) single
                          (MaxParallel (config der)) (TotalSize status) (bii_Ranges bii) of
                     Panic \<Rightarrow> Panic
                   | Ret parallel \<Rightarrow>
                       (case SelectBlockSizeAndInitRangeGen tp (config der) single status
                               parallel of
                          Panic \<Rightarrow> Panic
                        | Ret (blockSize, Some err, status1) \<Rightarrow> Ret (w1, Inl err)
                        | Ret (blockSize, None, status1) \<Rightarrow>
                            (case initRanges tp single (FileSize (der_fileInfo der)) status1
                                    parallel (bii_Ranges bii) of
                               Panic \<Rightarrow> Panic
                             | Ret (ranges, status2) \<Rightarrow>
                                 Ret (w1, Inr (fst (assignWorkers der pc 0 ranges
                                                      loadBalancerResponseList []))))))))"

text \<open>
  \<open>Execute\<close>: the preparation, the monitor's run, and the check of its error. The
  InstanceState is removed on success and in the zero-size case; the error is returned
  as it is in every case.
\<close>

definition Execute ::
  "TransferPkg \<Rightarrow> int64 \<Rightarrow> Downloader \<Rightarrow> PanClient \<Rightarrow> ExecuteEnv \<Rightarrow> World
     \<Rightarrow> (error option \<times> World) go" where
  "Execute tp MinParallelSize der pc env w =
     (case Execute_prepare tp MinParallelSize der pc env w of
        Panic \<Rightarrow> Panic
      | Ret (w1, Inl err) \<Rightarrow> Ret (Some err, w1)
      | Ret (w1, Inr workers) \<Rightarrow>
          (let w2 = w1\<lparr>destFile := Some (sizeAfterRun env workers)\<rparr>;
               err = monitorErr env workers
           in if err = None then Ret (err, removeInstanceState w2)
              else if err = Some ErrNoWokers \<and> FileSize (der_fileInfo der) = 0
              then Ret (err, removeInstanceState w2)
              else Ret (err, w2)))"

section \<open>The download task unit (package pandownload)\<close>

text \<open>
  The result messages are constants of non-ASCII text in the source; they are carried
  by name. \<open>MsgCheckValid\<close> is the literal assigned in the
  \<open>ErrDownloadNotSupportChecksum\<close> branch of \<open>checkFileValid\<close>.
\<close>

datatype message =
    NoMessage
  | StrDownloadInitError
  | StrDownloadFailed
  | StrDownloadGetDlinkFailed
  | StrDownloadChecksumFailed
  | MsgCheckValid

record TaskUnitRunResult =
  Succeed :: bool
  NeedRetry :: bool
  Err :: "error option"
  ResultMessage :: message

record DownloadTaskUnit =
  Cfg :: Config
  IsExecutedPermission :: bool
  IsOverwrite :: bool
  NoCheck :: bool
  FilePanPath :: string
  SavePath :: string
  FamilyId :: int64
  fileInfo :: AppFileEntity

text \<open>
  \<open>handleError\<close>: the type switch on \<open>result.Err\<close>. The constant
  \<open>apierror.ApiCodeFileNotFoundCode\<close> belongs to another module and is a parameter.
  An \<open>*ApiError\<close> in the interface is a pointer to an error (\<open>Run\<close> stores one only
  after its nil check).
\<close>

definition handleError :: "int \<Rightarrow> TaskUnitRunResult \<Rightarrow> TaskUnitRunResult" where
  "handleError ApiCodeFileNotFoundCode result =
     (case Err result of
        Some (ApiError code) \<Rightarrow>
          (if code = ApiCodeFileNotFoundCode then result\<lparr>NeedRetry := False\<rparr>
           else result\<lparr>NeedRetry := True\<rparr>)
      | Some (PathError p) \<Rightarrow> result\<lparr>NeedRetry := False\<rparr>
      | _ \<Rightarrow> result\<lparr>NeedRetry := True\<rparr>)"

text \<open>\<open>CheckFileValid\<close>: the body is three comments and \<open>return nil\<close>.\<close>

definition CheckFileValid :: "string \<Rightarrow> AppFileEntity \<Rightarrow> error option" where
  "CheckFileValid filePath fi = None"

text \<open>
  \<open>checkFileValid\<close>. The method returns \<open>ok\<close> and mutates the unit and the
  result; all three are returned. The early \<open>return\<close> under \<open>NoCheck\<close> returns the
  zero value of \<open>ok\<close>. The error switched on is the one \<open>CheckFileValid\<close>
  returned for \<open>dtu.SavePath\<close> and \<open>dtu.fileInfo\<close>.
\<close>

definition checkFileValid ::
  "DownloadTaskUnit \<Rightarrow> TaskUnitRunResult \<Rightarrow> bool \<times> DownloadTaskUnit \<times> TaskUnitRunResult" where
  "checkFileValid dtu result =
     (if NoCheck dtu then (False, dtu, result)
      else
        (case CheckFileValid (SavePath dtu) (fileInfo dtu) of
           None \<Rightarrow> (True, dtu, result)
         | Some err \<Rightarrow>
             (let result1 = result\<lparr>ResultMessage := StrDownloadChecksumFailed, Err := Some err\<rparr>
              in if err = ErrDownloadNotSupportChecksum then
                   (True, dtu, result1\<lparr>ResultMessage := MsgCheckValid, Err := Some err\<rparr>)
                 else if err = ErrDownloadFileBanned then
                   (False, dtu, result1\<lparr>NeedRetry := False\<rparr>)
                 else if err = ErrDownloadChecksumFailed then
                   (False, dtu\<lparr>IsOverwrite := True\<rparr>, result1\<lparr>NeedRetry := True\<rparr>)
                 else (False, dtu, result1\<lparr>NeedRetry := False\<rparr>))))"

text \<open>
  What the operating system answers to \<open>download\<close> in one run: \<open>os.Stat\<close> of the
  destination's directory, \<open>os.MkdirAll\<close>, the open of the destination
  (\<open>O_CREATE|O_WRONLY\<close>), \<open>file.Stat\<close>, \<open>os.Remove\<close>, and what the network answers
  to \<open>DefaultDURLCheckFunc\<close>.
\<close>

datatype dir_stat = StatError | IsDir | NotDir

record DownloadEnv =
  dirStat :: dir_stat
  mkdirAllErr :: "error option"
  openErr :: "error option"
  fileStatErr :: "error option"
  removeErr :: "error option"
  DefaultDURLCheckFunc :: "string \<Rightarrow> int64 \<times> http_Response option \<times> error option"

text \<open>
  \<open>download\<close> up to \<open>NewDownloaderWriterByFilename\<close>: the three early returns, or
  the destination opened (and created empty when it was absent). The not-a-directory
  error names the directory of \<open>SavePath\<close>; it is kept with \<open>SavePath\<close>.
\<close>

definition download_open :: "DownloadTaskUnit \<Rightarrow> DownloadEnv \<Rightarrow> World \<Rightarrow> error + World" where
  "download_open dtu denv w =
     (let opened =
        (case openErr denv of
           Some err \<Rightarrow> Inl (ErrInit err)
         | None \<Rightarrow>
             Inr (w\<lparr>destFile := (case destFile w of None \<Rightarrow> Some 0 | Some n \<Rightarrow> Some n)\<rparr>))
      in case dirStat denv of
           StatError \<Rightarrow>
             (case mkdirAllErr denv of Some err \<Rightarrow> Inl err | None \<Rightarrow> opened)
         | NotDir \<Rightarrow> Inl (ErrInitNotDirectory (SavePath dtu))
         | IsDir \<Rightarrow> opened)"

text \<open>
  The downloader \<open>download\<close> builds: \<open>NewDownloader\<close>, \<open>SetFileInfo\<close>,
  \<open>SetFamilyId\<close>; no mirror is ever set, and \<open>lazyInit\<close> installs the default probe.
\<close>

definition NewDownloader :: "DownloadTaskUnit \<Rightarrow> DownloadEnv \<Rightarrow> Downloader" where
  "NewDownloader dtu denv =
     \<lparr>config = Cfg dtu, der_fileInfo = fileInfo dtu, familyId = FamilyId dtu,
      loadBalansers = [], durlCheckFunc = DefaultDURLCheckFunc denv\<rparr>"

text \<open>
  \<open>download\<close> from the return of \<open>der.Execute()\<close> on. \<open>err\<close> is what
  \<open>Execute\<close> returned. In the error branch \<open>file.Stat\<close> reads the size of the open
  destination; \<open>os.Remove\<close> is called for size 0, and its error is only logged.
  \<open>file.Chmod\<close> in the success path changes nothing that \<open>World\<close> records.
\<close>

definition download_finish ::
  "DownloadTaskUnit \<Rightarrow> DownloadEnv \<Rightarrow> error option \<Rightarrow> World \<Rightarrow> error option \<times> World" where
  "download_finish dtu denv err w =
     (case err of
        None \<Rightarrow> (None, w)
      | Some e \<Rightarrow>
          (if e = ErrNoWokers \<and> FileSize (fileInfo dtu) = 0 then (None, w)
           else if fileStatErr denv = None \<and> destFile w = Some 0 then
             (Some e, w\<lparr>removeCalls := Suc (removeCalls w),
                        destFile := (if removeErr denv = None then None else destFile w)\<rparr>)
           else (Some e, w)))"

definition download ::
  "TransferPkg \<Rightarrow> int64 \<Rightarrow> DownloadTaskUnit \<Rightarrow> PanClient \<Rightarrow> DownloadEnv \<Rightarrow> ExecuteEnv \<Rightarrow> World
     \<Rightarrow> (error option \<times> World) go" where
  "download tp MinParallelSize dtu pc denv env w =
     (case download_open dtu denv w of
        Inl err \<Rightarrow> Ret (Some err, w)
      | Inr w1 \<Rightarrow>
          (case Execute tp MinParallelSize (NewDownloader dtu denv) pc env w1 of
             Panic \<Rightarrow> Panic
           | Ret (err, w2) \<Rightarrow> Ret (download_finish dtu denv err w2)))"

section \<open>The multi-part uploader (package uploader)\<close>

text \<open>
  A \<open>worker\<close> is one part. Of its \<open>splitUnit\<close> the end of the range and the read
  cursor are kept (\<open>Seek(0, SEEK_SET)\<close> puts the cursor back to 0). \<open>id\<close> is
  written \<open>worker_id\<close>.
\<close>

record worker =
  worker_id :: int
  partOffset :: int64
  splitUnit_End :: int64
  splitUnit_readed :: int64
  uploadDone :: bool

text \<open>
  \<open>muer.workers\<close> is a slice of pointers, and the deque holds the same pointers: a
  pointer is the index of the worker in \<open>workers\<close>. \<open>canceled\<close> says that the
  channel \<open>muer.canceled\<close> is closed.
\<close>

record MultiUploader =
  workers :: "worker list"
  canceled :: bool

text \<open>
  The answers of \<open>muer.multiUpload\<close> (an interface implemented elsewhere) to
  \<open>Precreate\<close> and \<open>CommitFile\<close>. The error \<open>UploadFile\<close> returns is a
  \<open>*MultiError\<close> with its \<open>Terminated\<close> flag and its \<open>Err\<close>, or another error.
\<close>

record MultiUpload =
  PrecreateErr :: "error option"
  CommitFileErr :: "error option"

datatype upload_error = MultiError bool "error option" | PlainError error

datatype call = Precreate | UploadFile int | CommitFile

text \<open>
  The loop of \<open>upload\<close> runs one goroutine per shifted worker. A run is a sequence of
  events, one per step of the schedule:
  \<^item> \<open>Shift\<close>: the main loop calls \<open>uploadDeque.Shift()\<close>; on a worker it starts the
    goroutine, on \<open>nil\<close> it leaves the inner loop and waits in \<open>wg.Wait()\<close>;
  \<^item> \<open>Select k obs\<close>: the \<open>k\<close>-th running goroutine passes its \<open>select\<close> and runs
    to its end: through \<open>case <-muer.canceled\<close> (\<open>SeesCanceled\<close>, possible only
    once the channel is closed), or through \<open>case <-doneChan\<close> with the
    \<open>(uploadDone, terr)\<close> that \<open>UploadFile\<close> returned (\<open>SeesDone\<close>);
  \<^item> \<open>Cancel\<close>: the channel is closed from outside the loop.
  An event that is not possible in the state changes nothing. The bound of the wait
  group on the number of running goroutines only delays a goroutine and is not
  modelled: every schedule it admits is among the event sequences.
\<close>

datatype observation = SeesCanceled | SeesDone bool "upload_error option"

datatype event = Shift | Select nat observation | Cancel

text \<open>
  The state of the loop: the uploader, the deque, the workers whose goroutine is
  running, whether the main loop is in \<open>wg.Wait()\<close>, the named result \<open>uperr\<close>, and
  the calls made to \<open>muer.multiUpload\<close> so far.
\<close>

record upload_state =
  muer :: MultiUploader
  uploadDeque :: "nat list"
  running :: "nat list"
  waiting :: bool
  uperr :: "error option"
  calls :: "call list"

text \<open>
  \<open>Shift\<close>. The inner goroutine calls \<open>UploadFile\<close> unless the part is done already;
  the call is recorded when the goroutine is started, so \<open>calls\<close> lists the
  \<open>UploadFile\<close> calls in the order of the shifts, not in the order in which the
  scheduler lets the inner goroutines make them.
\<close>

definition shift :: "upload_state \<Rightarrow> upload_state" where
  "shift s =
     (case uploadDeque s of
        [] \<Rightarrow> s\<lparr>waiting := True\<rparr>
      | i # d \<Rightarrow>
          s\<lparr>uploadDeque := d, running := running s @ [i],
            calls := calls s @
              (if uploadDone (workers (muer s) ! i) then []
               else [UploadFile (worker_id (workers (muer s) ! i))])\<rparr>)"

text \<open>
  The goroutine from its \<open>select\<close> on: return on \<open>canceled\<close>; on a terminating
  \<open>MultiError\<close> close \<open>canceled\<close> and set \<open>uperr\<close>; on any other error rewind the
  part and append it to the deque again; otherwise store \<open>uploadDone\<close> in the worker.
  The notification on \<open>updateInstanceStateChan\<close> that follows has no part in the
  state kept here.
\<close>

definition select :: "upload_state \<Rightarrow> nat \<Rightarrow> observation \<Rightarrow> upload_state" where
  "select s k obs =
     (if length (running s) \<le> k then s
      else
        (let i = running s ! k;
             wer = workers (muer s) ! i;
             s1 = s\<lparr>running := take k (running s) @ drop (Suc k) (running s)\<rparr>
         in case obs of
              SeesCanceled \<Rightarrow> (if canceled (muer s) then s1 else s)
            | SeesDone done answer \<Rightarrow>
                (let uploadDone' = (if uploadDone wer then True else done);
                     terr = (if uploadDone wer then None else answer)
                 in case terr of
                      Some (MultiError True err) \<Rightarrow>
                        s1\<lparr>muer := (muer s)\<lparr>canceled := True\<rparr>, uperr := err\<rparr>
                    | Some other \<Rightarrow>
                        s1\<lparr>muer := (muer s)\<lparr>workers :=
                                    (workers (muer s))[i := wer\<lparr>splitUnit_readed := 0\<rparr>]\<rparr>,
                           uploadDeque := uploadDeque s @ [i]\<rparr>
                    | None \<Rightarrow>
                        s1\<lparr>muer := (muer s)\<lparr>workers :=
                                    (workers (muer s))[i := wer\<lparr>uploadDone := uploadDone'\<rparr>]\<rparr>\<rparr>)))"

text \<open>
  One event. When \<open>wg.Wait()\<close> has returned with parts in the deque, the outer loop
  starts its next round first.
\<close>

definition step :: "upload_state \<Rightarrow> event \<Rightarrow> upload_state" where
  "step s e =
     (let s' = (if waiting s \<and> running s = [] then s\<lparr>waiting := False\<rparr> else s)
      in case e of
           Shift \<Rightarrow> (if waiting s' then s' else shift s')
         | Select k obs \<Rightarrow> select s' k obs
         | Cancel \<Rightarrow> s'\<lparr>muer := (muer s')\<lparr>canceled := True\<rparr>\<rparr>)"

text \<open>
  The outer loop is left when \<open>wg.Wait()\<close> has returned and \<open>uploadDeque.Size()\<close> is
  0. \<open>uploadLoop\<close> returns the state at that moment, or \<open>None\<close> when the events end
  before (the loop is still running).
\<close>

definition drained :: "upload_state \<Rightarrow> bool" where
  "drained s \<longleftrightarrow> waiting s \<and> running s = [] \<and> uploadDeque s = []"

fun uploadLoop :: "upload_state \<Rightarrow> event list \<Rightarrow> upload_state option" where
  "uploadLoop s [] = (if drained s then Some s else None)"
| "uploadLoop s (e # es) = (if drained s then Some s else uploadLoop (step s e) es)"

text \<open>The loop "allSuccess = allSuccess && wer.uploadDone" over \<open>muer.workers\<close>.\<close>

definition allSuccess :: "worker list \<Rightarrow> bool" where
  "allSuccess ws = foldl (\<lambda>a wer. a \<and> uploadDone wer) True ws"

text \<open>
  The state in which the loop starts: \<open>Precreate\<close> has been called, and the deque
  holds the parts that are not done yet, in the order of \<open>muer.workers\<close>.
\<close>

definition enqueue :: "MultiUploader \<Rightarrow> upload_state" where
  "enqueue m =
     \<lparr>muer = m,
      uploadDeque = filter (\<lambda>i. \<not> uploadDone (workers m ! i)) [0 ..< length (workers m)],
      running = [], waiting = False, uperr = None, calls = [Precreate]\<rparr>"

text \<open>
  \<open>upload\<close>: \<open>Precreate\<close>, the deque, the loop, the check of \<open>canceled\<close>, and the
  commit. It returns \<open>uperr\<close> (or the error of an early return) and the state in
  which it returned; \<open>None\<close> is a run that has not returned. The events are those up
  to the moment the loop is left, and \<open>canceled\<close> is read in the state of that moment:
  events after it are not read, so a run in which the channel is closed between the
  end of the loop and the \<open>select\<close> that follows it is not among the runs of this
  function (it returns without committing).
\<close>

definition upload ::
  "MultiUploader \<Rightarrow> MultiUpload \<Rightarrow> event list \<Rightarrow> (error option \<times> upload_state) option" where
  "upload m mu es =
     (case PrecreateErr mu of
        Some err \<Rightarrow>
          Some (Some err,
                \<lparr>muer = m, uploadDeque = [], running = [], waiting = False, uperr = None,
                 calls = [Precreate]\<rparr>)
      | None \<Rightarrow>
          (case uploadLoop (enqueue m) es of
             None \<Rightarrow> None
           | Some s \<Rightarrow>
               (if canceled (muer s) then
                  Some (if uperr s \<noteq> None then uperr s else Some ContextCanceled, s)
                else if allSuccess (workers (muer s)) then
                  (case CommitFileErr mu of
                     Some e \<Rightarrow> Some (Some e, s\<lparr>calls := calls s @ [CommitFile]\<rparr>)
                   | None \<Rightarrow> Some (uperr s, s\<lparr>calls := calls s @ [CommitFile]\<rparr>))
                else Some (uperr s, s))))"

text \<open>
  Concrete inputs for the closed theorems below: a transfer package whose unspecified
  operations are trivial, and the configuration of the spec's first scenario (BlockSize
  mode, block size 4 MiB, parallelism 3).
\<close>

definition example_tp :: TransferPkg where
  "example_tp = \<lparr>LoadBlockSize = (\<lambda>g. 0), GenRangeDefault = (\<lambda>g. (g, None))\<rparr>"

definition example_cfg :: Config where
  "example_cfg =
     \<lparr>Mode = RangeGenMode_BlockSize, MaxParallel = 3, CacheSize = 65536,
      BlockSize = 4194304, MaxRate = 0, TryHTTP = False\<rparr>"

text \<open>
  A downloader for a 7-byte file with two mirrors: the first answers 200 with the
  right length, the second does not answer. The API resolves every lookup to one URL.
\<close>

definition example_der :: Downloader where
  "example_der =
     \<lparr>config = example_cfg,
      der_fileInfo = \<lparr>FileId = ''f1'', FileSize = 7, IsFolder = False, Path = ''/a.txt''\<rparr>,
      familyId = 0,
      loadBalansers = [''https://m1.example/f1'', ''https://m2.example/f1''],
      durlCheckFunc = (\<lambda>u.
        if u = ''https://m1.example/f1''
        then (7, Some \<lparr>StatusCode = 200,
                       Request = Some \<lparr>ReqURL = \<lparr>Scheme = ''https'', Rest = ''//m1.example/f1''\<rparr>\<rparr>\<rparr>,
              None)
        else (0, None, Some (ErrorString ''timeout'')))\<rparr>"

definition example_pc :: PanClient where
  "example_pc =
     \<lparr>AppGetFileDownloadUrl = (\<lambda>k fileId. (''https://cloud.example/f1'', None)),
      AppFamilyGetFileDownloadUrl = (\<lambda>k fam fileId. (''https://cloud.example/f1'', None))\<rparr>"

text \<open>
  Download units for an empty and for a 7-byte file, an operating system that answers
  every call with success, a run of \<open>Execute\<close> whose monitor reports \<open>ErrNoWokers\<close>
  when it is given no worker and leaves the destination empty, an API whose lookups
  fail, a run whose monitor fails for another reason, and a world without files.
\<close>

definition zero_dtu :: DownloadTaskUnit where
  "zero_dtu =
     \<lparr>Cfg = example_cfg, IsExecutedPermission = False, IsOverwrite = False, NoCheck = False,
      FilePanPath = ''/empty.txt'', SavePath = ''dl/empty.txt'', FamilyId = 0,
      fileInfo = \<lparr>FileId = ''f0'', FileSize = 0, IsFolder = False, Path = ''/empty.txt''\<rparr>\<rparr>"

definition small_dtu :: DownloadTaskUnit where
  "small_dtu =
     zero_dtu\<lparr>fileInfo := \<lparr>FileId = ''f1'', FileSize = 7, IsFolder = False, Path = ''/a.txt''\<rparr>\<rparr>"

definition ok_denv :: DownloadEnv where
  "ok_denv =
     \<lparr>dirStat = IsDir, mkdirAllErr = None, openErr = None, fileStatErr = None,
      removeErr = None,
      DefaultDURLCheckFunc = (\<lambda>u. (0, None, Some (ErrorString ''unreachable'')))\<rparr>"

definition idle_env :: ExecuteEnv where
  "idle_env =
     \<lparr>finishOrder = [], initInstanceStateErr = None, instanceState_Get = None,
      monitorErr = (\<lambda>ws. if ws = [] then Some ErrNoWokers else None),
      sizeAfterRun = (\<lambda>ws. 0)\<rparr>"

definition failing_pc :: PanClient where
  "failing_pc =
     \<lparr>AppGetFileDownloadUrl = (\<lambda>k fileId. ([], Some (ApiError 500))),
      AppFamilyGetFileDownloadUrl = (\<lambda>k fam fileId. ([], Some (ApiError 500)))\<rparr>"

definition failing_env :: ExecuteEnv where
  "failing_env = idle_env\<lparr>monitorErr := (\<lambda>ws. Some (ErrorString ''connection reset''))\<rparr>"

definition fresh_world :: World where
  "fresh_world = \<lparr>destFile = None, instanceStateFile = False, removeCalls = 0\<rparr>"

text \<open>An upload of three parts, none done yet, whose service accepts every call.\<close>

definition three_parts :: MultiUploader where
  "three_parts =
     \<lparr>workers =
        [\<lparr>worker_id = 1, partOffset = 0, splitUnit_End = 10, splitUnit_readed = 0,
          uploadDone = False\<rparr>,
         \<lparr>worker_id = 2, partOffset = 10, splitUnit_End = 20, splitUnit_readed = 0,
          uploadDone = False\<rparr>,
         \<lparr>worker_id = 3, partOffset = 20, splitUnit_End = 25, splitUnit_readed = 0,
          uploadDone = False\<rparr>],
      canceled = False\<rparr>"

definition accepting :: MultiUpload where
  "accepting = \<lparr>PrecreateErr = None, CommitFileErr = None\<rparr>"

section \<open>Theorems\<close>

subsection \<open>Error classification of the download unit\<close>

text \<open>
  C4. \<open>handleError\<close> sets \<open>NeedRetry\<close> to false for an \<open>ApiError\<close> whose code is
  file-not-found and for an \<open>*os.PathError\<close>, and to true for every other value of
  \<open>result.Err\<close> (an \<open>ApiError\<close> of another code, any other error, \<open>nil\<close>);
  no other field of the result changes.
\<close>

theorem handleError_classifies:
  "(Err result = Some (ApiError nf) \<longrightarrow> \<not> NeedRetry (handleError nf result)) \<and>
   ((\<exists>p. Err result = Some (PathError p)) \<longrightarrow> \<not> NeedRetry (handleError nf result)) \<and>
   (Err result \<noteq> Some (ApiError nf) \<and> (\<forall>p. Err result \<noteq> Some (PathError p))
      \<longrightarrow> NeedRetry (handleError nf result)) \<and>
   handleError nf result = result\<lparr>NeedRetry := NeedRetry (handleError nf result)\<rparr>"
  by (auto simp: handleError_def split: option.splits error.splits)

theorem handleError_classifies_witness:
  "\<not> NeedRetry (handleError 404
       \<lparr>Succeed = False, NeedRetry = True, Err = Some (ApiError 404), ResultMessage = StrDownloadFailed\<rparr>) \<and>
   \<not> NeedRetry (handleError 404
       \<lparr>Succeed = False, NeedRetry = True, Err = Some (PathError ''/tmp/a''), ResultMessage = StrDownloadFailed\<rparr>) \<and>
   NeedRetry (handleError 404
       \<lparr>Succeed = False, NeedRetry = False, Err = Some (ApiError 500), ResultMessage = StrDownloadFailed\<rparr>) \<and>
   NeedRetry (handleError 404
       \<lparr>Succeed = False, NeedRetry = False, Err = Some ErrNoWokers, ResultMessage = StrDownloadFailed\<rparr>)"
  using
    handleError_classifies [of "\<lparr>Succeed = False, NeedRetry = True, Err = Some (ApiError 404), ResultMessage = StrDownloadFailed\<rparr>" 404]
    handleError_classifies [of "\<lparr>Succeed = False, NeedRetry = True, Err = Some (PathError ''/tmp/a''), ResultMessage = StrDownloadFailed\<rparr>" 404]
    handleError_classifies [of "\<lparr>Succeed = False, NeedRetry = False, Err = Some (ApiError 500), ResultMessage = StrDownloadFailed\<rparr>" 404]
    handleError_classifies [of "\<lparr>Succeed = False, NeedRetry = False, Err = Some ErrNoWokers, ResultMessage = StrDownloadFailed\<rparr>" 404]
  by simp

subsection \<open>Post-download validation\<close>


text \<open>
  C9. \<open>CheckFileValid\<close> returns \<open>nil\<close> for every path and every file entity; hence
  \<open>checkFileValid\<close>, which calls it, never reports a validation failure: it returns
  ok exactly when validation is on, and leaves the unit and the result untouched.
\<close>

theorem CheckFileValid_always_nil:
  "CheckFileValid filePath fi = None \<and>
   checkFileValid dtu result = (\<not> NoCheck dtu, dtu, result)"
  by (simp add: CheckFileValid_def checkFileValid_def)

subsection \<open>Block size and range plan\<close>

lemma sint_go_div_pos:
  assumes "0 <s a" "1 \<le>s b"
  shows "sint (go_div a b) = sint a div sint b"
proof -
  have a: "0 < sint a" using assms(1) by (simp add: word_sless_alt)
  have b: "1 \<le> sint b" using assms(2) by (simp add: word_sle_eq)
  have ub: "sint a < 2 ^ 63" using sint_lt [of a] by simp
  have q: "sint a sdiv sint b = sint a div sint b"
    using a b by (simp add: signed_divide_int_def sgn_if)
  have lo: "0 \<le> sint a div sint b" using a b by (simp add: pos_imp_zdiv_nonneg_iff)
  have "sint a div sint b \<le> sint a div 1"
    using a b by (intro zdiv_mono2) simp_all
  then have hi: "sint a div sint b < 2 ^ 63" using ub by simp
  have "signed_take_bit 63 (sint a div sint b) = sint a div sint b"
    using lo hi by (intro signed_take_bit_int_eq_self) simp_all
  then show ?thesis
    by (simp add: go_div_def q sint_sbintrunc')
qed

lemma sint_succ:
  fixes x :: int64
  assumes "sint x \<noteq> 2 ^ 63 - 1"
  shows "sint (x + 1) = sint x + 1"
proof -
  have "sint x < 2 ^ 63" using sint_lt [of x] by simp
  then have hi: "sint x + 1 < 2 ^ 63" using assms by simp
  have lo: "- (2 ^ 63) \<le> sint x + 1" using sint_ge [of x] by simp
  have "signed_take_bit 63 (sint x + 1) = sint x + 1"
    using lo hi by (intro signed_take_bit_int_eq_self) simp_all
  then show ?thesis by (simp add: sint_word_ariths)
qed

lemma div_max_only:
  fixes a b :: int
  assumes "0 < a" "1 \<le> b" "a \<le> 2 ^ 63 - 1" "a div b = 2 ^ 63 - 1"
  shows "a = 2 ^ 63 - 1 \<and> b = 1"
proof -
  have "a div b \<le> a div 1" using assms by (intro zdiv_mono2) simp_all
  then have a: "a = 2 ^ 63 - 1" using assms by simp
  have "b = 1"
  proof (rule ccontr)
    assume "b \<noteq> 1"
    then have "1 < b" using assms(2) by simp
    then have "a div b < a" using assms(1) by (simp add: int_div_less_self)
    then show False using a assms(4) by simp
  qed
  with a show ?thesis by simp
qed

lemma SelectBlockSize_multi:
  assumes mode: "Mode cfg = RangeGenMode_BlockSize"
    and nogen: "RangeListGen status = None"
    and size: "0 <s TotalSize status"
    and par: "1 \<le>s parallel"
    and fits: "\<not> (TotalSize status = 9223372036854775807 \<and> parallel = 1)"
  shows "\<exists>blockSize.
           SelectBlockSizeAndInitRangeGen tp cfg False status parallel =
             Ret (blockSize, None,
                  status\<lparr>RangeListGen :=
                    Some (NewRangeListGenBlockSize (TotalSize status) 0 blockSize)\<rparr>) \<and>
           sint blockSize =
             min (sint (BlockSize cfg)) (sint (TotalSize status) div sint parallel + 1)"
proof -
  let ?b2 = "go_div (TotalSize status) parallel + 1"
  have p0: "parallel \<noteq> 0" using par by (auto simp: word_sle_eq)
  have d: "sint (go_div (TotalSize status) parallel) = sint (TotalSize status) div sint parallel"
    using size par by (rule sint_go_div_pos)
  have a: "0 < sint (TotalSize status)" using size by (simp add: word_sless_alt)
  have b: "1 \<le> sint parallel" using par by (simp add: word_sle_eq)
  have ub: "sint (TotalSize status) \<le> 2 ^ 63 - 1" using sint_lt [of "TotalSize status"] by simp
  have nomax: "sint (go_div (TotalSize status) parallel) \<noteq> 2 ^ 63 - 1"
  proof
    assume "sint (go_div (TotalSize status) parallel) = 2 ^ 63 - 1"
    then have "sint (TotalSize status) div sint parallel = 2 ^ 63 - 1" using d by simp
    from div_max_only [OF a b ub this]
    have "sint (TotalSize status) = sint (9223372036854775807 :: int64)"
      and "sint parallel = sint (1 :: int64)" by simp_all
    then have "TotalSize status = 9223372036854775807 \<and> parallel = 1"
      by (auto intro: signed_word_eqI)
    with fits show False by simp
  qed
  have b2: "sint ?b2 = sint (TotalSize status) div sint parallel + 1"
    using sint_succ [OF nomax] d by simp
  show ?thesis
    using mode nogen p0 b2
    by (auto simp: SelectBlockSizeAndInitRangeGen_def Let_def word_sless_alt min_def)
qed

text \<open>
  C2 (as stated). Two calls in BlockSize mode, with \<open>totalSize > 0\<close>,
  \<open>parallelism \<ge> 1\<close> and no generator in the status, that do not return the minimum.
  At \<open>totalSize = 2^63 - 1\<close> and \<open>parallelism = 1\<close> the \<open>int64\<close> sum
  \<open>totalSize/parallelism + 1\<close> wraps to \<open>-2^63\<close>, which is not greater than the
  configured 4 MiB and is therefore returned, while the minimum of 4 MiB and \<open>2^63\<close>
  is 4 MiB. And with \<open>single = true\<close> the method returns \<open>-1\<close> for the 10 MiB file
  with parallelism 3 and installs no generator, while the minimum is 3495254.
\<close>

theorem SelectBlockSize_not_always_min:
  "SelectBlockSizeAndInitRangeGen example_tp (example_cfg\<lparr>MaxParallel := 1\<rparr>) False
      \<lparr>TotalSize = 9223372036854775807, RangeListGen = None\<rparr> 1 =
     Ret (- 9223372036854775808, None,
          \<lparr>TotalSize = 9223372036854775807,
           RangeListGen =
             Some (RangeListGenBlockSize 9223372036854775807 0 (- 9223372036854775808))\<rparr>) \<and>
   sint (- 9223372036854775808 :: int64) \<noteq>
     min (sint (BlockSize (example_cfg\<lparr>MaxParallel := 1\<rparr>)))
         (sint (9223372036854775807 :: int64) div sint (1 :: int64) + 1) \<and>
   SelectBlockSizeAndInitRangeGen example_tp example_cfg True
      \<lparr>TotalSize = 10485760, RangeListGen = None\<rparr> 3 =
     Ret (- 1, None, \<lparr>TotalSize = 10485760, RangeListGen = None\<rparr>) \<and>
   sint (- 1 :: int64) \<noteq>
     min (sint (BlockSize example_cfg)) (sint (10485760 :: int64) div sint (3 :: int64) + 1)"
  by (simp add: SelectBlockSizeAndInitRangeGen_def go_div_def NewRangeListGenBlockSize_def
        example_cfg_def signed_divide_int_def word_sless_alt)

text \<open>
  C2 (amended). In BlockSize mode, with no generator in the status, for every
  \<open>totalSize > 0\<close> and \<open>parallelism \<ge> 1\<close>: called with \<open>single = true\<close>,
  \<open>SelectBlockSizeAndInitRangeGen\<close> returns the block size \<open>-1\<close> without error and
  leaves the status without generator; called with \<open>single = false\<close> (as \<open>Execute\<close>
  calls it), and unless \<open>totalSize = 2^63 - 1\<close> with \<open>parallelism = 1\<close>, it returns
  without error the block size
  \<open>min(configured block size, totalSize div parallelism + 1)\<close> and installs the
  BlockSize generator of that block size starting at offset 0.
\<close>

theorem SelectBlockSize_BlockSize_mode:
  assumes mode: "Mode cfg = RangeGenMode_BlockSize"
    and nogen: "RangeListGen status = None"
    and size: "0 <s TotalSize status"
    and par: "1 \<le>s parallel"
  shows "(single \<longrightarrow>
            SelectBlockSizeAndInitRangeGen tp cfg single status parallel =
              Ret (- 1, None, status)) \<and>
         (\<not> single \<and> \<not> (TotalSize status = 9223372036854775807 \<and> parallel = 1) \<longrightarrow>
            (\<exists>blockSize.
               SelectBlockSizeAndInitRangeGen tp cfg single status parallel =
                 Ret (blockSize, None,
                      status\<lparr>RangeListGen :=
                        Some (NewRangeListGenBlockSize (TotalSize status) 0 blockSize)\<rparr>) \<and>
               sint blockSize =
                 min (sint (BlockSize cfg)) (sint (TotalSize status) div sint parallel + 1)))"
proof (intro conjI impI)
  assume single
  then show "SelectBlockSizeAndInitRangeGen tp cfg single status parallel =
               Ret (- 1, None, status)"
    by (simp add: SelectBlockSizeAndInitRangeGen_def)
next
  assume a: "\<not> single \<and> \<not> (TotalSize status = 9223372036854775807 \<and> parallel = 1)"
  then have s: "single = False"
    and fits: "\<not> (TotalSize status = 9223372036854775807 \<and> parallel = 1)" by simp_all
  from SelectBlockSize_multi [OF mode nogen size par fits, of tp]
  show "\<exists>blockSize.
          SelectBlockSizeAndInitRangeGen tp cfg single status parallel =
            Ret (blockSize, None,
                 status\<lparr>RangeListGen :=
                   Some (NewRangeListGenBlockSize (TotalSize status) 0 blockSize)\<rparr>) \<and>
          sint blockSize =
            min (sint (BlockSize cfg)) (sint (TotalSize status) div sint parallel + 1)"
    unfolding s .
qed

theorem SelectBlockSize_BlockSize_mode_witness:
  "Mode example_cfg = RangeGenMode_BlockSize \<and>
   0 <s (10485760 :: int64) \<and> 1 \<le>s (3 :: int64) \<and>
   SelectBlockSizeAndInitRangeGen example_tp example_cfg True
       \<lparr>TotalSize = 10485760, RangeListGen = None\<rparr> 3 =
     Ret (- 1, None, \<lparr>TotalSize = 10485760, RangeListGen = None\<rparr>) \<and>
   (\<exists>blockSize.
      SelectBlockSizeAndInitRangeGen example_tp example_cfg False
          \<lparr>TotalSize = 10485760, RangeListGen = None\<rparr> 3 =
        Ret (blockSize, None,
             \<lparr>TotalSize = 10485760,
              RangeListGen = Some (NewRangeListGenBlockSize 10485760 0 blockSize)\<rparr>) \<and>
      sint blockSize = 3495254)"
proof -
  have m: "Mode example_cfg = RangeGenMode_BlockSize" by (simp add: example_cfg_def)
  have g: "RangeListGen \<lparr>TotalSize = 10485760, RangeListGen = None\<rparr> = None" by simp
  have z: "0 <s TotalSize \<lparr>TotalSize = 10485760, RangeListGen = None\<rparr>"
    by (simp add: word_sless_alt)
  have p: "1 \<le>s (3 :: int64)" by (simp add: word_sle_eq)
  from SelectBlockSize_BlockSize_mode [OF m g z p, of True example_tp]
       SelectBlockSize_BlockSize_mode [OF m g z p, of False example_tp]
  show ?thesis
    using m by (simp add: example_cfg_def word_sless_alt word_sle_eq)
qed

text \<open>
  C3 (as stated). The plan of the 10 MiB file with configured block size 4 MiB and
  parallelism 3 is not \<open>[0, 4 MiB) [4 MiB, 8 MiB) [8 MiB, 10 MiB)\<close>.
\<close>

theorem freshPlan_10MiB_not_4MiB_blocks:
  "freshPlan example_tp example_cfg 10485760 3 \<noteq>
     Ret (Inr [\<lparr>Begin = 0, End = 4194304\<rparr>, \<lparr>Begin = 4194304, End = 8388608\<rparr>,
               \<lparr>Begin = 8388608, End = 10485760\<rparr>])"
  by (simp add: freshPlan_def SelectBlockSizeAndInitRangeGen_def initRanges_def go_div_def
        NewRangeListGenBlockSize_def GenRange_def numeral_3_eq_3 signed_divide_int_def
        word_sle_eq word_sless_alt example_cfg_def)

text \<open>
  C3 (amended). For a 10 MiB file in BlockSize mode with configured block size 4 MiB
  and parallelism 3, the block size chosen is \<open>min(4 MiB, 10 MiB div 3 + 1) = 3495254\<close>
  and the plan is exactly the three ranges \<open>[0, 3495254)\<close>, \<open>[3495254, 6990508)\<close>,
  \<open>[6990508, 10485760)\<close>, whatever the other settings are.
\<close>

theorem freshPlan_10MiB:
  "freshPlan tp (cfg\<lparr>Mode := RangeGenMode_BlockSize, BlockSize := 4194304\<rparr>) 10485760 3 =
     Ret (Inr [\<lparr>Begin = 0, End = 3495254\<rparr>, \<lparr>Begin = 3495254, End = 6990508\<rparr>,
               \<lparr>Begin = 6990508, End = 10485760\<rparr>])"
  by (simp add: freshPlan_def SelectBlockSizeAndInitRangeGen_def initRanges_def go_div_def
        NewRangeListGenBlockSize_def GenRange_def numeral_3_eq_3 signed_divide_int_def
        word_sle_eq word_sless_alt)

subsection \<open>Mirror probing\<close>

lemma probeLoadBalanser_adds:
  assumes "probeLoadBalanser der m lbs = Ret lbs'"
  shows "lbs' = lbs \<or>
         (\<exists>len resp req.
            durlCheckFunc der m = (len, Some resp, None) \<and>
            StatusCode resp sdiv 100 \<noteq> 4 \<and> StatusCode resp sdiv 100 \<noteq> 5 \<and>
            len = FileSize (der_fileInfo der) \<and> Request resp = Some req \<and>
            lbs' = lbs @ [\<lparr>URL = URL_String
                      (if TryHTTP (config der) then (ReqURL req)\<lparr>Scheme := ''http''\<rparr>
                       else ReqURL req)\<rparr>])"
  using assms
  by (auto simp: probeLoadBalanser_def handleLoadBalancer_def Let_def
      split: prod.splits option.splits if_splits)

lemma probeAll_adds:
  assumes "probeAll der ms lbs = Ret lbs'"
  shows "\<exists>added. lbs' = lbs @ added \<and>
           (\<forall>c \<in> set added. \<exists>m \<in> set ms. \<exists>len resp req.
              durlCheckFunc der m = (len, Some resp, None) \<and>
              StatusCode resp sdiv 100 \<noteq> 4 \<and> StatusCode resp sdiv 100 \<noteq> 5 \<and>
              len = FileSize (der_fileInfo der) \<and> Request resp = Some req \<and>
              c = \<lparr>URL = URL_String
                      (if TryHTTP (config der) then (ReqURL req)\<lparr>Scheme := ''http''\<rparr>
                       else ReqURL req)\<rparr>)"
  using assms
proof (induction ms arbitrary: lbs)
  case Nil
  then show ?case by simp
next
  case (Cons m ms)
  let ?ok = "\<lambda>ms c. \<exists>m \<in> set ms. \<exists>len resp req.
              durlCheckFunc der m = (len, Some resp, None) \<and>
              StatusCode resp sdiv 100 \<noteq> 4 \<and> StatusCode resp sdiv 100 \<noteq> 5 \<and>
              len = FileSize (der_fileInfo der) \<and> Request resp = Some req \<and>
              c = \<lparr>URL = URL_String
                      (if TryHTTP (config der) then (ReqURL req)\<lparr>Scheme := ''http''\<rparr>
                       else ReqURL req)\<rparr>"
  from Cons.prems obtain mid where
    step: "probeLoadBalanser der m lbs = Ret mid" and rest: "probeAll der ms mid = Ret lbs'"
    by (auto split: go.splits)
  from Cons.IH [OF rest] obtain added where
    a1: "lbs' = mid @ added" and a2: "\<forall>c \<in> set added. ?ok ms c"
    by blast
  from probeLoadBalanser_adds [OF step] consider "mid = lbs"
    | c where "mid = lbs @ [c]" and "?ok [m] c"
    by auto
  then show ?case
  proof cases
    case 1
    with a1 a2 show ?thesis by auto
  next
    case 2
    have "lbs' = lbs @ (c # added)" using a1 2(1) by simp
    moreover have "\<forall>c' \<in> set (c # added). ?ok (m # ms) c'"
      using a2 2(2) by auto
    ultimately show ?thesis by blast
  qed
qed

lemma probeAll_prefix:
  "probeAll der ms lbs = Ret lbs' \<Longrightarrow> \<exists>added. lbs' = lbs @ added"
  using probeAll_adds by blast

text \<open>
  C6. An entry that \<open>checkLoadBalancers\<close> has added to its candidate slice after the
  first one comes from a probed mirror whose probe returned no error, whose status
  divided by 100 is neither 4 nor 5, and whose content length equals the file's size;
  the entry is the URL of that probe's request. This holds for every order in which the
  probes finish.
\<close>

theorem loadBalancerResponses_accepts_only:
  assumes "loadBalancerResponses der finished = Ret lbs" and "c \<in> set (tl lbs)"
  shows "\<exists>m \<in> set finished. \<exists>len resp req.
           durlCheckFunc der m = (len, Some resp, None) \<and>
           StatusCode resp sdiv 100 \<noteq> 4 \<and> StatusCode resp sdiv 100 \<noteq> 5 \<and>
           len = FileSize (der_fileInfo der) \<and> Request resp = Some req \<and>
           c = \<lparr>URL = URL_String
                   (if TryHTTP (config der) then (ReqURL req)\<lparr>Scheme := ''http''\<rparr>
                    else ReqURL req)\<rparr>"
proof -
  from assms(1) have p: "probeAll der finished [\<lparr>URL = ''der.durl''\<rparr>] = Ret lbs"
    by (simp add: loadBalancerResponses_def)
  from probeAll_adds [OF p] obtain added where
    "lbs = [\<lparr>URL = ''der.durl''\<rparr>] @ added" and
    a: "\<forall>c \<in> set added. \<exists>m \<in> set finished. \<exists>len resp req.
              durlCheckFunc der m = (len, Some resp, None) \<and>
              StatusCode resp sdiv 100 \<noteq> 4 \<and> StatusCode resp sdiv 100 \<noteq> 5 \<and>
              len = FileSize (der_fileInfo der) \<and> Request resp = Some req \<and>
              c = \<lparr>URL = URL_String
                      (if TryHTTP (config der) then (ReqURL req)\<lparr>Scheme := ''http''\<rparr>
                       else ReqURL req)\<rparr>"
    by blast
  then have "tl lbs = added" by simp
  with assms(2) a show ?thesis by blast
qed

lemma example_der_responses:
  "loadBalancerResponses example_der (loadBalansers example_der) =
     Ret [\<lparr>URL = ''der.durl''\<rparr>, \<lparr>URL = ''https://m1.example/f1''\<rparr>]"
  by (simp add: loadBalancerResponses_def example_der_def probeLoadBalanser_def
      handleLoadBalancer_def example_cfg_def URL_String_def signed_divide_int_def)

theorem loadBalancerResponses_accepts_only_witness:
  "loadBalancerResponses example_der (loadBalansers example_der) =
     Ret [\<lparr>URL = ''der.durl''\<rparr>, \<lparr>URL = ''https://m1.example/f1''\<rparr>] \<and>
   (\<exists>m \<in> set (loadBalansers example_der). \<exists>len resp req.
      durlCheckFunc example_der m = (len, Some resp, None) \<and>
      StatusCode resp sdiv 100 \<noteq> 4 \<and> StatusCode resp sdiv 100 \<noteq> 5 \<and>
      len = FileSize (der_fileInfo example_der) \<and> Request resp = Some req \<and>
      \<lparr>URL = ''https://m1.example/f1''\<rparr> =
        \<lparr>URL = URL_String
           (if TryHTTP (config example_der) then (ReqURL req)\<lparr>Scheme := ''http''\<rparr>
            else ReqURL req)\<rparr>)"
proof -
  have "\<lparr>URL = ''https://m1.example/f1''\<rparr> \<in>
          set (tl [\<lparr>URL = ''der.durl''\<rparr>, \<lparr>URL = ''https://m1.example/f1''\<rparr>])"
    by simp
  from loadBalancerResponses_accepts_only [OF example_der_responses this]
  show ?thesis using example_der_responses by simp
qed

subsection \<open>The first candidate and the round-robin draw\<close>

lemma SequentialGet_nonempty:
  "lbr l \<noteq> [] \<Longrightarrow>
     SequentialGet l = (Some (lbr l ! (cursor l mod length (lbr l))), l\<lparr>cursor := Suc (cursor l)\<rparr>)"
  by (simp add: SequentialGet_def)

lemma assignWorkers_cursor:
  "lbr l \<noteq> [] \<Longrightarrow>
     snd (assignWorkers der pc k rs l ws) = l\<lparr>cursor := cursor l + length rs\<rparr>"
proof (induction rs arbitrary: k l ws)
  case Nil
  then show ?case by simp
next
  case (Cons r rs)
  then show ?case
    by (simp add: SequentialGet_nonempty split: prod.splits option.splits)
qed

lemma assignWorkers_urls:
  assumes "\<forall>w \<in> set ws. workerURL w = fst (getDownloadUrl der pc (workerID w))"
  shows "\<forall>w \<in> set (fst (assignWorkers der pc k rs l ws)).
           workerURL w = fst (getDownloadUrl der pc (workerID w))"
  using assms
proof (induction rs arbitrary: k l ws)
  case Nil
  then show ?case by simp
next
  case (Cons r rs)
  obtain c l' where sg: "SequentialGet l = (c, l')" by (cases "SequentialGet l")
  obtain durl apierr where gd: "getDownloadUrl der pc k = (durl, apierr)"
    by (cases "getDownloadUrl der pc k")
  show ?case
  proof (cases "c \<noteq> None \<and> apierr = None")
    case True
    have "\<forall>w \<in> set (ws @ [\<lparr>workerID = k, workerFamilyId = familyId der,
                    workerFileId = FileId (der_fileInfo der), workerURL = durl,
                    workerTotalSize = FileSize (der_fileInfo der),
                    acceptRanges = ''bytes'', wrange = r\<rparr>]).
            workerURL w = fst (getDownloadUrl der pc (workerID w))"
      using Cons.prems gd by simp
    from Cons.IH [OF this] show ?thesis using sg gd True by auto
  next
    case False
    then show ?thesis using Cons sg gd by (cases c; cases apierr) simp_all
  qed
qed

lemma example_der_candidates:
  "checkLoadBalancers example_der (loadBalansers example_der) =
     Ret \<lparr>lbr = [\<lparr>URL = ''der.durl''\<rparr>, \<lparr>URL = ''https://m1.example/f1''\<rparr>], cursor = 0\<rparr>"
  by (simp add: checkLoadBalancers_def example_der_responses NewLoadBalancerResponseList_def)

text \<open>
  C7 (as stated). The downloader of the example resolves the transfer's download URL
  through the API (\<open>https://cloud.example/f1\<close>), and its one worker downloads from
  it; the first element of the candidate list is the text \<open>der.durl\<close>, not that URL.
\<close>

theorem first_candidate_is_not_the_download_URL:
  "checkLoadBalancers example_der (loadBalansers example_der) =
     Ret \<lparr>lbr = [\<lparr>URL = ''der.durl''\<rparr>, \<lparr>URL = ''https://m1.example/f1''\<rparr>], cursor = 0\<rparr> \<and>
   map workerURL (fst (assignWorkers example_der example_pc 0 [\<lparr>Begin = 0, End = 7\<rparr>]
      \<lparr>lbr = [\<lparr>URL = ''der.durl''\<rparr>, \<lparr>URL = ''https://m1.example/f1''\<rparr>], cursor = 0\<rparr> [])) =
     [''https://cloud.example/f1''] \<and>
   URL (hd [\<lparr>URL = ''der.durl''\<rparr>, \<lparr>URL = ''https://m1.example/f1''\<rparr>]) \<noteq>
     ''https://cloud.example/f1''"
proof -
  have "familyId example_der = 0" by (simp add: example_der_def)
  then show ?thesis
    using example_der_candidates
    by (simp add: SequentialGet_def getDownloadUrl_def example_pc_def word_sless_alt)
qed

text \<open>
  C7 (amended). The candidate list compiled by \<open>checkLoadBalancers\<close> is never empty
  and starts with a fixed entry whose URL is the text \<open>der.durl\<close>, with the cursor on
  it. \<open>SequentialGet\<close> draws round-robin: with the cursor at \<open>n\<close> it returns entry
  \<open>n mod length\<close>. \<open>Execute\<close> draws once per range, so the cursor ends at the
  number of ranges, and every worker it builds downloads from the URL the API resolved
  for its index, not from the candidate drawn.
\<close>

theorem candidates_placeholder_first:
  assumes "checkLoadBalancers der finished = Ret l"
  shows "lbr l \<noteq> [] \<and> hd (lbr l) = \<lparr>URL = ''der.durl''\<rparr> \<and> cursor l = 0 \<and>
         fst (SequentialGet (l\<lparr>cursor := n\<rparr>)) = Some (lbr l ! (n mod length (lbr l))) \<and>
         snd (assignWorkers der pc 0 rs l []) = l\<lparr>cursor := length rs\<rparr> \<and>
         list_all (\<lambda>w. workerURL w = fst (getDownloadUrl der pc (workerID w)))
           (fst (assignWorkers der pc 0 rs l []))"
proof -
  from assms obtain lbs where
    p: "probeAll der finished [\<lparr>URL = ''der.durl''\<rparr>] = Ret lbs" and
    l: "l = NewLoadBalancerResponseList lbs"
    by (auto simp: checkLoadBalancers_def loadBalancerResponses_def split: go.splits)
  from probeAll_prefix [OF p] obtain added where "lbs = \<lparr>URL = ''der.durl''\<rparr> # added" by auto
  then have l': "lbr l = \<lparr>URL = ''der.durl''\<rparr> # added" "cursor l = 0"
    using l by (simp_all add: NewLoadBalancerResponseList_def)
  then have ne: "lbr l \<noteq> []" by simp
  have "snd (assignWorkers der pc 0 rs l []) = l\<lparr>cursor := length rs\<rparr>"
    using assignWorkers_cursor [OF ne, of der pc 0 rs "[]"] l'(2) by simp
  moreover have "list_all (\<lambda>w. workerURL w = fst (getDownloadUrl der pc (workerID w)))
           (fst (assignWorkers der pc 0 rs l []))"
    using assignWorkers_urls [of "[]" der pc 0 rs l] by (simp add: list_all_iff)
  moreover have "fst (SequentialGet (l\<lparr>cursor := n\<rparr>)) = Some (lbr l ! (n mod length (lbr l)))"
    using ne by (simp add: SequentialGet_def)
  ultimately show ?thesis using l' by simp
qed

theorem candidates_placeholder_first_witness:
  "checkLoadBalancers example_der (loadBalansers example_der) =
     Ret \<lparr>lbr = [\<lparr>URL = ''der.durl''\<rparr>, \<lparr>URL = ''https://m1.example/f1''\<rparr>], cursor = 0\<rparr> \<and>
   hd [\<lparr>URL = ''der.durl''\<rparr>, \<lparr>URL = ''https://m1.example/f1''\<rparr>] = \<lparr>URL = ''der.durl''\<rparr> \<and>
   fst (SequentialGet
          \<lparr>lbr = [\<lparr>URL = ''der.durl''\<rparr>, \<lparr>URL = ''https://m1.example/f1''\<rparr>], cursor = 3\<rparr>) =
     Some ([\<lparr>URL = ''der.durl''\<rparr>, \<lparr>URL = ''https://m1.example/f1''\<rparr>] ! (3 mod 2)) \<and>
   snd (assignWorkers example_der example_pc 0
          [\<lparr>Begin = 0, End = 3\<rparr>, \<lparr>Begin = 3, End = 6\<rparr>, \<lparr>Begin = 6, End = 7\<rparr>]
          \<lparr>lbr = [\<lparr>URL = ''der.durl''\<rparr>, \<lparr>URL = ''https://m1.example/f1''\<rparr>], cursor = 0\<rparr> []) =
     \<lparr>lbr = [\<lparr>URL = ''der.durl''\<rparr>, \<lparr>URL = ''https://m1.example/f1''\<rparr>], cursor = 3\<rparr>"
proof -
  note w = candidates_placeholder_first [OF example_der_candidates, of 3 example_pc
      "[\<lparr>Begin = 0, End = 3\<rparr>, \<lparr>Begin = 3, End = 6\<rparr>, \<lparr>Begin = 6, End = 7\<rparr>]"]
  have "length [\<lparr>URL = ''der.durl''\<rparr>, \<lparr>URL = ''https://m1.example/f1''\<rparr>] = 2" by simp
  moreover have "length [\<lparr>Begin = 0, End = 3\<rparr>, \<lparr>Begin = 3, End = 6\<rparr>, \<lparr>Begin = 6, End = 7 :: int64\<rparr>] = 3"
    by simp
  ultimately show ?thesis
    using w example_der_candidates
    by (simp only: LoadBalancerResponseList.simps list.sel simp_thms)
qed

subsection \<open>A plan without workers, and the empty file left by a failed download\<close>

lemmas run_defs =
  download_def download_open_def download_finish_def Execute_def Execute_prepare_def
  NewDownloader_def checkLoadBalancers_def loadBalancerResponses_def
  NewLoadBalancerResponseList_def initInstanceState_def removeInstanceState_def
  SelectParallel_def SelectBlockSizeAndInitRangeGen_def initRanges_def GenRange_def
  NewRangeListGenBlockSize_def go_div_def signed_divide_int_def SequentialGet_def
  getDownloadUrl_def word_sless_alt word_sle_eq

lemmas example_defs =
  zero_dtu_def small_dtu_def ok_denv_def idle_env_def failing_env_def failing_pc_def
  example_pc_def example_cfg_def fresh_world_def

lemma Execute_after_prepare:
  assumes "Execute_prepare tp mps der pc env w1 = Ret (w2, Inr ws)"
  shows "Execute tp mps der pc env w1 =
     (let w3 = w2\<lparr>destFile := Some (sizeAfterRun env ws)\<rparr>
      in case monitorErr env ws of
           None \<Rightarrow> Ret (None, removeInstanceState w3)
         | Some e \<Rightarrow> Ret (Some e, if e = ErrNoWokers \<and> FileSize (der_fileInfo der) = 0
                                  then removeInstanceState w3 else w3))"
  using assms by (simp add: Execute_def Let_def split: option.splits)

text \<open>
  C5. Take a run of \<open>download\<close> that opens the destination and whose \<open>Execute\<close>
  reaches the monitor, and let the monitor report \<open>ErrNoWokers\<close>. If the file's size
  is 0, \<open>download\<close> returns \<open>nil\<close> and no InstanceState file exists afterwards; if
  the size is not 0, \<open>download\<close> returns the error \<open>ErrNoWokers\<close>.
\<close>

theorem download_zero_workers:
  assumes opened: "download_open dtu denv w = Inr w1"
    and prepared:
      "Execute_prepare tp mps (NewDownloader dtu denv) pc env w1 = Ret (w2, Inr ws)"
    and none: "monitorErr env ws = Some ErrNoWokers"
  shows "(FileSize (fileInfo dtu) = 0 \<longrightarrow>
            (\<exists>w'. download tp mps dtu pc denv env w = Ret (None, w') \<and>
                  \<not> instanceStateFile w')) \<and>
         (FileSize (fileInfo dtu) \<noteq> 0 \<longrightarrow>
            (\<exists>w'. download tp mps dtu pc denv env w = Ret (Some ErrNoWokers, w')))"
  using opened none Execute_after_prepare [OF prepared]
  by (auto simp: download_def download_finish_def NewDownloader_def removeInstanceState_def Let_def)

lemma zero_dtu_opened:
  "download_open zero_dtu ok_denv fresh_world = Inr (fresh_world\<lparr>destFile := Some 0\<rparr>)"
  by (simp add: download_open_def ok_denv_def fresh_world_def)

lemma zero_dtu_prepared:
  "Execute_prepare example_tp 65536 (NewDownloader zero_dtu ok_denv) example_pc idle_env
      (fresh_world\<lparr>destFile := Some 0\<rparr>) =
     Ret (\<lparr>destFile = Some 0, instanceStateFile = True, removeCalls = 0\<rparr>, Inr [])"
  by (simp add: run_defs example_defs)

lemma small_dtu_opened:
  "download_open small_dtu ok_denv fresh_world = Inr (fresh_world\<lparr>destFile := Some 0\<rparr>)"
  by (simp add: download_open_def ok_denv_def fresh_world_def)

lemma small_dtu_prepared:
  "Execute_prepare example_tp 65536 (NewDownloader small_dtu ok_denv) failing_pc idle_env
      (fresh_world\<lparr>destFile := Some 0\<rparr>) =
     Ret (\<lparr>destFile = Some 0, instanceStateFile = True, removeCalls = 0\<rparr>, Inr [])"
  by (simp add: run_defs example_defs numeral_3_eq_3)

theorem download_zero_workers_witness:
  "(\<exists>w'. download example_tp 65536 zero_dtu example_pc ok_denv idle_env fresh_world =
            Ret (None, w') \<and> \<not> instanceStateFile w') \<and>
   (\<exists>w'. download example_tp 65536 small_dtu failing_pc ok_denv idle_env fresh_world =
            Ret (Some ErrNoWokers, w'))"
proof -
  have m: "monitorErr idle_env [] = Some ErrNoWokers" by (simp add: idle_env_def)
  have z: "FileSize (fileInfo zero_dtu) = 0" by (simp add: zero_dtu_def)
  have s: "FileSize (fileInfo small_dtu) \<noteq> 0" by (simp add: small_dtu_def zero_dtu_def)
  from download_zero_workers [OF zero_dtu_opened zero_dtu_prepared m] z
    download_zero_workers [OF small_dtu_opened small_dtu_prepared m] s
  show ?thesis by blast
qed

text \<open>
  C10 (as stated). Three runs in which \<open>download\<close> returns an error while the
  destination is an empty file, and the file is still there afterwards: \<open>os.Remove\<close>
  fails (its error is only logged); \<open>file.Stat\<close> fails (no removal is tried); the
  open of an existing empty file fails (the error is returned before any removal).
\<close>

theorem download_error_keeps_empty_file:
  "download example_tp 65536 small_dtu example_pc
      (ok_denv\<lparr>removeErr := Some (PathError ''dl/empty.txt'')\<rparr>) failing_env fresh_world =
     Ret (Some (ErrorString ''connection reset''),
          \<lparr>destFile = Some 0, instanceStateFile = True, removeCalls = 1\<rparr>) \<and>
   download example_tp 65536 small_dtu example_pc
      (ok_denv\<lparr>fileStatErr := Some (PathError ''dl/empty.txt'')\<rparr>) failing_env fresh_world =
     Ret (Some (ErrorString ''connection reset''),
          \<lparr>destFile = Some 0, instanceStateFile = True, removeCalls = 0\<rparr>) \<and>
   download example_tp 65536 small_dtu example_pc
      (ok_denv\<lparr>openErr := Some (PathError ''dl/empty.txt'')\<rparr>) failing_env
      (fresh_world\<lparr>destFile := Some 0\<rparr>) =
     Ret (Some (ErrInit (PathError ''dl/empty.txt'')),
          \<lparr>destFile = Some 0, instanceStateFile = False, removeCalls = 0\<rparr>)"
  by (simp add: run_defs example_defs numeral_3_eq_3)

text \<open>
  C10 (amended). An error that \<open>download\<close> returns before \<open>Execute\<close> (MkdirAll, not
  a directory, open) leaves every file as it was. When \<open>Execute\<close> returns an error
  other than the zero-byte success, \<open>download\<close> returns that error, and: if
  \<open>file.Stat\<close> succeeds and the size is 0, \<open>os.Remove\<close> is called once, and the
  destination is gone if the removal succeeds and stays if it fails; if the size is
  not 0, or \<open>file.Stat\<close> fails, \<open>os.Remove\<close> is not called and the destination
  stays as it is.
\<close>

theorem download_error_removal:
  "(download_open dtu denv w = Inl e \<longrightarrow>
      download tp mps dtu pc denv env w = Ret (Some e, w)) \<and>
   (download_open dtu denv w = Inr w1 \<and>
    Execute tp mps (NewDownloader dtu denv) pc env w1 = Ret (Some e, w2) \<and>
    \<not> (e = ErrNoWokers \<and> FileSize (fileInfo dtu) = 0) \<longrightarrow>
      download tp mps dtu pc denv env w =
        Ret (Some e,
             if fileStatErr denv = None \<and> destFile w2 = Some 0
             then w2\<lparr>removeCalls := Suc (removeCalls w2),
                     destFile := (if removeErr denv = None then None else Some 0)\<rparr>
             else w2))"
  by (auto simp: download_def download_finish_def)

lemma small_dtu_failing_Execute:
  "Execute example_tp 65536 (NewDownloader small_dtu ok_denv) example_pc failing_env
      (fresh_world\<lparr>destFile := Some 0\<rparr>) =
     Ret (Some (ErrorString ''connection reset''),
          \<lparr>destFile = Some 0, instanceStateFile = True, removeCalls = 0\<rparr>)"
  by (simp add: run_defs example_defs numeral_3_eq_3)

theorem download_error_removal_witness:
  "download example_tp 65536 small_dtu example_pc ok_denv failing_env fresh_world =
     Ret (Some (ErrorString ''connection reset''),
          \<lparr>destFile = None, instanceStateFile = True, removeCalls = 1\<rparr>)"
proof -
  have "fileStatErr ok_denv = None" "removeErr ok_denv = None" by (simp_all add: ok_denv_def)
  with download_error_removal [of small_dtu ok_denv fresh_world
      "ErrorString ''connection reset''" example_tp 65536 example_pc failing_env
      "fresh_world\<lparr>destFile := Some 0\<rparr>"
      "\<lparr>destFile = Some 0, instanceStateFile = True, removeCalls = 0\<rparr>"]
    small_dtu_opened small_dtu_failing_Execute
  show ?thesis by simp
qed

subsection \<open>The commit of a multi-part upload\<close>

lemma allSuccess_iff: "allSuccess ws \<longleftrightarrow> list_all uploadDone ws"
proof -
  have "foldl (\<lambda>a wer. a \<and> uploadDone wer) b ws \<longleftrightarrow> b \<and> list_all uploadDone ws" for b
    by (induction ws arbitrary: b) auto
  then show ?thesis by (simp add: allSuccess_def)
qed

lemma shift_no_commit: "CommitFile \<notin> set (calls s) \<Longrightarrow> CommitFile \<notin> set (calls (shift s))"
  by (simp add: shift_def split: list.splits)

lemma select_calls: "calls (select s k obs) = calls s"
  by (simp add: select_def Let_def
      split: observation.splits option.splits upload_error.splits bool.splits)

lemma step_no_commit: "CommitFile \<notin> set (calls s) \<Longrightarrow> CommitFile \<notin> set (calls (step s e))"
  by (cases e) (simp_all add: step_def Let_def select_calls shift_no_commit)

lemma uploadLoop_no_commit:
  "uploadLoop s es = Some s' \<Longrightarrow> CommitFile \<notin> set (calls s) \<Longrightarrow> CommitFile \<notin> set (calls s')"
proof (induction es arbitrary: s)
  case Nil
  then show ?case by (simp split: if_splits)
next
  case (Cons e es)
  then show ?case by (auto split: if_splits dest: step_no_commit)
qed

lemma uploadLoop_drained: "uploadLoop s es = Some s' \<Longrightarrow> drained s'"
  by (induction es arbitrary: s) (auto split: if_splits)

text \<open>
  C1. In every run of \<open>upload\<close>: if \<open>Precreate\<close> fails, the run returns that error
  and \<open>CommitFile\<close> is not called; as long as the queue has not drained, the run has
  not returned (and has not called \<open>CommitFile\<close>, which comes after the loop); and
  once the queue has drained, in state \<open>s1\<close>, the run returns with the workers as
  they are in \<open>s1\<close>, and \<open>CommitFile\<close> has been called if and only if every
  worker's \<open>uploadDone\<close> is true in \<open>s1\<close> and \<open>canceled\<close> is not closed. So when
  the queue drains with some part not done, the run returns without committing.
\<close>

theorem upload_commits_only_when_all_done:
  "(PrecreateErr mu \<noteq> None \<longrightarrow>
      (\<exists>s. upload m mu es = Some (PrecreateErr mu, s) \<and> CommitFile \<notin> set (calls s))) \<and>
   (PrecreateErr mu = None \<and> uploadLoop (enqueue m) es = None \<longrightarrow> upload m mu es = None) \<and>
   (PrecreateErr mu = None \<and> uploadLoop (enqueue m) es = Some s1 \<longrightarrow>
      drained s1 \<and>
      (\<exists>ret s. upload m mu es = Some (ret, s) \<and> muer s = muer s1 \<and>
         (CommitFile \<in> set (calls s) \<longleftrightarrow>
            list_all uploadDone (workers (muer s1)) \<and> \<not> canceled (muer s1))))"
proof (intro conjI impI)
  assume "PrecreateErr mu \<noteq> None"
  then show "\<exists>s. upload m mu es = Some (PrecreateErr mu, s) \<and> CommitFile \<notin> set (calls s)"
    by (auto simp: upload_def)
next
  assume "PrecreateErr mu = None \<and> uploadLoop (enqueue m) es = None"
  then show "upload m mu es = None" by (simp add: upload_def)
next
  assume a: "PrecreateErr mu = None \<and> uploadLoop (enqueue m) es = Some s1"
  then show "drained s1" by (auto dest: uploadLoop_drained)
next
  assume a: "PrecreateErr mu = None \<and> uploadLoop (enqueue m) es = Some s1"
  then have loop: "uploadLoop (enqueue m) es = Some s1" and pre: "PrecreateErr mu = None"
    by simp_all
  have nc: "CommitFile \<notin> set (calls s1)"
    using loop by (rule uploadLoop_no_commit) (simp add: enqueue_def)
  show "\<exists>ret s. upload m mu es = Some (ret, s) \<and> muer s = muer s1 \<and>
         (CommitFile \<in> set (calls s) \<longleftrightarrow>
            list_all uploadDone (workers (muer s1)) \<and> \<not> canceled (muer s1))"
    using loop pre nc
    by (cases "CommitFileErr mu") (auto simp: upload_def allSuccess_iff)
qed

lemmas upload_run_defs =
  enqueue_def three_parts_def step_def shift_def select_def drained_def
  upt_rec numeral_3_eq_3 Let_def

lemma three_parts_second_not_done:
  "uploadLoop (enqueue three_parts)
      [Shift, Shift, Shift, Shift, Select 0 (SeesDone True None),
       Select 0 (SeesDone False None), Select 0 (SeesDone True None)] =
   Some
     \<lparr>muer = \<lparr>workers =
        [\<lparr>worker_id = 1, partOffset = 0, splitUnit_End = 10, splitUnit_readed = 0,
          uploadDone = True\<rparr>,
         \<lparr>worker_id = 2, partOffset = 10, splitUnit_End = 20, splitUnit_readed = 0,
          uploadDone = False\<rparr>,
         \<lparr>worker_id = 3, partOffset = 20, splitUnit_End = 25, splitUnit_readed = 0,
          uploadDone = True\<rparr>], canceled = False\<rparr>,
      uploadDeque = [], running = [], waiting = True, uperr = None,
      calls = [Precreate, UploadFile 1, UploadFile 2, UploadFile 3]\<rparr>"
  by (simp add: upload_run_defs)

lemma three_parts_retry_then_done:
  "uploadLoop (enqueue three_parts)
      [Shift, Shift, Shift, Shift, Select 1 (SeesDone True None),
       Select 0 (SeesDone False (Some (PlainError (ErrorString ''reset'')))),
       Select 0 (SeesDone True None), Shift, Shift, Select 0 (SeesDone True None)] =
   Some
     \<lparr>muer = \<lparr>workers =
        [\<lparr>worker_id = 1, partOffset = 0, splitUnit_End = 10, splitUnit_readed = 0,
          uploadDone = True\<rparr>,
         \<lparr>worker_id = 2, partOffset = 10, splitUnit_End = 20, splitUnit_readed = 0,
          uploadDone = True\<rparr>,
         \<lparr>worker_id = 3, partOffset = 20, splitUnit_End = 25, splitUnit_readed = 0,
          uploadDone = True\<rparr>], canceled = False\<rparr>,
      uploadDeque = [], running = [], waiting = True, uperr = None,
      calls = [Precreate, UploadFile 1, UploadFile 2, UploadFile 3, UploadFile 1]\<rparr>"
  by (simp add: upload_run_defs)

theorem upload_commits_only_when_all_done_witness:
  "(\<exists>ret s. upload three_parts accepting
           [Shift, Shift, Shift, Shift, Select 0 (SeesDone True None),
            Select 0 (SeesDone False None), Select 0 (SeesDone True None)] = Some (ret, s) \<and>
        \<not> list_all uploadDone (workers (muer s)) \<and> CommitFile \<notin> set (calls s)) \<and>
   (\<exists>ret s. upload three_parts accepting
           [Shift, Shift, Shift, Shift, Select 1 (SeesDone True None),
            Select 0 (SeesDone False (Some (PlainError (ErrorString ''reset'')))),
            Select 0 (SeesDone True None), Shift, Shift, Select 0 (SeesDone True None)] =
          Some (ret, s) \<and>
        list_all uploadDone (workers (muer s)) \<and> CommitFile \<in> set (calls s))"
proof -
  let ?es1 = "[Shift, Shift, Shift, Shift, Select 0 (SeesDone True None),
               Select 0 (SeesDone False None), Select 0 (SeesDone True None)]"
  let ?es2 = "[Shift, Shift, Shift, Shift, Select 1 (SeesDone True None),
               Select 0 (SeesDone False (Some (PlainError (ErrorString ''reset'')))),
               Select 0 (SeesDone True None), Shift, Shift, Select 0 (SeesDone True None)]"
  have pre: "PrecreateErr accepting = None" by (simp add: accepting_def)
  obtain s1 where l1: "uploadLoop (enqueue three_parts) ?es1 = Some s1"
    and n1: "\<not> list_all uploadDone (workers (muer s1))"
    using three_parts_second_not_done by simp
  from upload_commits_only_when_all_done [of accepting three_parts ?es1 s1] pre l1
  obtain ret s where r1: "upload three_parts accepting ?es1 = Some (ret, s)"
    and m1: "muer s = muer s1"
    and c1: "CommitFile \<in> set (calls s) \<longleftrightarrow>
               list_all uploadDone (workers (muer s1)) \<and> \<not> canceled (muer s1)"
    by blast
  from n1 m1 c1 have "\<not> list_all uploadDone (workers (muer s)) \<and> CommitFile \<notin> set (calls s)"
    by simp
  with r1 have first: "\<exists>ret s. upload three_parts accepting ?es1 = Some (ret, s) \<and>
        \<not> list_all uploadDone (workers (muer s)) \<and> CommitFile \<notin> set (calls s)"
    by blast
  obtain s2 where l2: "uploadLoop (enqueue three_parts) ?es2 = Some s2"
    and n2: "list_all uploadDone (workers (muer s2))" "\<not> canceled (muer s2)"
    using three_parts_retry_then_done by simp
  from upload_commits_only_when_all_done [of accepting three_parts ?es2 s2] pre l2
  obtain ret' s' where r2: "upload three_parts accepting ?es2 = Some (ret', s')"
    and m2: "muer s' = muer s2"
    and c2: "CommitFile \<in> set (calls s') \<longleftrightarrow>
               list_all uploadDone (workers (muer s2)) \<and> \<not> canceled (muer s2)"
    by blast
  from n2 m2 c2 have "list_all uploadDone (workers (muer s')) \<and> CommitFile \<in> set (calls s')"
    by simp
  with r2 have "\<exists>ret s. upload three_parts accepting ?es2 = Some (ret, s) \<and>
        list_all uploadDone (workers (muer s)) \<and> CommitFile \<in> set (calls s)"
    by blast
  with first show ?thesis by blast
qed

end
